theory Spec2Isabelle
  imports Complex_Main
begin

section \<open>Text primitives of the host language\<close>

text \<open>
  A Python \<open>str\<close> is a sequence of code points. It is modelled as a \<open>string\<close> with one
  \<open>char\<close> per code point, which covers the code points U+0000 to U+00FF. The character
  classes below are those of Python 3 on that range.
\<close>

definition is_space :: "char \<Rightarrow> bool" where
  \<comment> \<open>what \<open>str.strip()\<close>, \<open>str.isspace()\<close> and the pattern \<open>\s\<close> treat as whitespace\<close>
  "is_space c \<longleftrightarrow> c \<in> set [CHR 0x09, CHR 0x0A, CHR 0x0B, CHR 0x0C, CHR 0x0D,
     CHR 0x1C, CHR 0x1D, CHR 0x1E, CHR 0x1F, CHR 0x20, CHR 0x85, CHR 0xA0]"

definition is_decimal :: "char \<Rightarrow> bool" where
  \<comment> \<open>the decimal digits: what the pattern \<open>\d\<close> matches and what \<open>int()\<close> can read\<close>
  "is_decimal c \<longleftrightarrow> c \<in> set ''0123456789''"

definition is_digit :: "char \<Rightarrow> bool" where
  \<comment> \<open>the characters of \<open>str.isdigit()\<close>: the decimal digits and the superscripts
      U+00B2, U+00B3 and U+00B9\<close>
  "is_digit c \<longleftrightarrow> is_decimal c \<or> c \<in> set [CHR 0xB2, CHR 0xB3, CHR 0xB9]"

definition is_linebreak :: "char \<Rightarrow> bool" where
  \<comment> \<open>the line boundaries of \<open>str.splitlines()\<close>\<close>
  "is_linebreak c \<longleftrightarrow> c \<in> set [CHR 0x0A, CHR 0x0D, CHR 0x0B, CHR 0x0C,
     CHR 0x1C, CHR 0x1D, CHR 0x1E, CHR 0x85]"

definition isdigit :: "string \<Rightarrow> bool" where
  \<comment> \<open>\<open>s.isdigit()\<close>: at least one character, and every character a digit\<close>
  "isdigit s \<longleftrightarrow> s \<noteq> [] \<and> list_all is_digit s"

definition strip :: "string \<Rightarrow> string" where
  \<comment> \<open>\<open>s.strip()\<close>\<close>
  "strip s = rev (dropWhile is_space (rev (dropWhile is_space s)))"

definition startswith :: "string \<Rightarrow> string \<Rightarrow> bool" where
  \<comment> \<open>\<open>s.startswith(p)\<close>\<close>
  "startswith s p \<longleftrightarrow> take (length p) s = p"

fun splitlines_from :: "string \<Rightarrow> string \<Rightarrow> string list" where
  \<comment> \<open>the first argument is the current line, read so far, in reverse\<close>
  "splitlines_from acc [] = (if acc = [] then [] else [rev acc])"
| "splitlines_from acc (c # cs) =
     (if c = CHR 0x0D \<and> cs \<noteq> [] \<and> hd cs = CHR 0x0A then rev acc # splitlines_from [] (tl cs)
      else if is_linebreak c then rev acc # splitlines_from [] cs
      else splitlines_from (c # acc) cs)"

definition splitlines :: "string \<Rightarrow> string list" where
  \<comment> \<open>\<open>s.splitlines()\<close>: the line breaks are dropped, CR LF is one break, and there is
      no empty last line\<close>
  "splitlines s = splitlines_from [] s"

datatype error = UrlGenerationError | ValueError

definition digit_value :: "char \<Rightarrow> int" where
  "digit_value c = int (of_char c) - 48"

definition decimal_value :: "string \<Rightarrow> int" where
  \<comment> \<open>the number that a string of decimal digits writes in base ten\<close>
  "decimal_value s = foldl (\<lambda>n c. 10 * n + digit_value c) 0 s"

definition int_max_str_digits :: nat where
  \<comment> \<open>the interpreter's limit on the length of a digit string that \<open>int()\<close> converts, at
      its default, which the program leaves unchanged\<close>
  "int_max_str_digits = 4300"

definition py_int :: "string \<Rightarrow> error + int" where
  \<comment> \<open>\<open>int(s)\<close> at its call sites, where \<open>s\<close> has passed \<open>isdigit()\<close> or is a group matched
      by \<open>\d+\<close>: the value in base ten when every character is a decimal digit and there
      are no more of them than the limit (leading zeros count), and \<open>ValueError\<close>
      otherwise\<close>
  "py_int s =
     (if s \<noteq> [] \<and> list_all is_decimal s \<and> length s \<le> int_max_str_digits
      then Inr (decimal_value s) else Inl ValueError)"

function str_nat :: "nat \<Rightarrow> string" where
  "str_nat n = (if n < 10 then [''0123456789'' ! n]
                else str_nat (n div 10) @ [''0123456789'' ! (n mod 10)])"
  by pat_completeness auto
termination
  by (relation "measure id") auto

definition str_int :: "int \<Rightarrow> string" where
  \<comment> \<open>\<open>str(i)\<close>, which is what \<open>format\<close> writes for an integer field\<close>
  "str_int i = (if i < 0 then CHR ''-'' # str_nat (nat (- i)) else str_nat (nat i))"


section \<open>Reading the identifiers\<close>

fun read_lines :: "string list \<Rightarrow> string list" where
  \<comment> \<open>the loop of \<open>read_app_ids\<close> over the lines of the file\<close>
  "read_lines [] = []"
| "read_lines (raw_line # raw_lines) =
     (let app_id = strip raw_line in
      if app_id = [] \<or> startswith app_id ''#'' then read_lines raw_lines
      else if \<not> isdigit app_id then read_lines raw_lines
      else app_id # read_lines raw_lines)"

definition read_app_ids :: "string \<Rightarrow> string list" where
  \<comment> \<open>the argument is the text that \<open>ids_path.read_text\<close> returns\<close>
  "read_app_ids text = read_lines (splitlines text)"


section \<open>Building the URLs\<close>

definition build_base_url :: "string \<Rightarrow> string" where
  "build_base_url app_id =
     ''https://steamcommunity.com/app/'' @ app_id @
     ''/discussions/search/?gidforum=1638661595058265180&include_deleted=1&q=+''"

definition build_page_url :: "string \<Rightarrow> int \<Rightarrow> string" where
  "build_page_url app_id page = build_base_url app_id @ ''&p='' @ str_int page"


section \<open>The parsed page\<close>

text \<open>
  The tree that the HTML parser hands to \<open>extract_max_page\<close>: text strings and elements.
  An element has its tag name (the parser writes it in lower case), the tokens of its
  \<open>class\<close> attribute (the parser stores this attribute as the list of its
  whitespace-separated tokens), its other attributes, and its children in document order.
  The parsed document itself is an element named \<open>[document]\<close> with no attributes.
  A text node is a string of the tree that \<open>get_text\<close> reads; the strings that it skips
  (comments, for one) take no part in any of the scans and are left out.
\<close>

datatype node =
    Text string
  | Element string "string list" "(string \<times> string) list" "node list"

fun descendants :: "node \<Rightarrow> node list" where
  \<comment> \<open>everything below a node, in document order; the node itself is not among them\<close>
  "descendants (Text s) = []"
| "descendants (Element name cls attrs kids) = concat (map (\<lambda>k. k # descendants k) kids)"

fun is_element :: "node \<Rightarrow> bool" where
  "is_element (Text s) = False"
| "is_element (Element name cls attrs kids) = True"

fun tag_name :: "node \<Rightarrow> string" where
  "tag_name (Text s) = []"
| "tag_name (Element name cls attrs kids) = name"

fun class_list :: "node \<Rightarrow> string list" where
  "class_list (Text s) = []"
| "class_list (Element name cls attrs kids) = cls"

fun get :: "node \<Rightarrow> string \<Rightarrow> string option" where
  \<comment> \<open>\<open>element.get(key)\<close>, with \<open>None\<close> when the attribute is absent\<close>
  "get (Text s) key = None"
| "get (Element name cls attrs kids) key = map_of attrs key"

definition select :: "(node \<Rightarrow> bool) \<Rightarrow> node \<Rightarrow> node list" where
  \<comment> \<open>\<open>node.select(selector)\<close>: the elements below the node that match, in document order\<close>
  "select selector n = filter (\<lambda>e. is_element e \<and> selector e) (descendants n)"

definition pagination_selector :: "node \<Rightarrow> bool" where
  \<comment> \<open>\<open>.forum_pagination, .search_pagination, .forum_paging, .searchPaging\<close>\<close>
  "pagination_selector e \<longleftrightarrow>
     (\<exists>c \<in> set [''forum_pagination'', ''search_pagination'', ''forum_paging'', ''searchPaging''].
        c \<in> set (class_list e))"

definition data_page_selector :: "node \<Rightarrow> bool" where
  \<comment> \<open>\<open>[data-page]\<close>\<close>
  "data_page_selector e \<longleftrightarrow> get e ''data-page'' \<noteq> None"

fun contains :: "string \<Rightarrow> string \<Rightarrow> bool" where
  \<comment> \<open>\<open>contains s sub\<close>: \<open>sub\<close> occurs in \<open>s\<close>\<close>
  "contains [] sub = (sub = [])"
| "contains (c # cs) sub = (startswith (c # cs) sub \<or> contains cs sub)"

definition page_link_selector :: "node \<Rightarrow> bool" where
  \<comment> \<open>\<open>a[href*="&p="]\<close>\<close>
  "page_link_selector e \<longleftrightarrow>
     tag_name e = ''a'' \<and> (case get e ''href'' of None \<Rightarrow> False | Some href \<Rightarrow> contains href ''&p='')"

fun join :: "string \<Rightarrow> string list \<Rightarrow> string" where
  "join sep [] = []"
| "join sep [s] = s"
| "join sep (s # t # ts) = s @ sep @ join sep (t # ts)"

fun text_of :: "node \<Rightarrow> string list" where
  "text_of (Text s) = [s]"
| "text_of (Element name cls attrs kids) = []"

definition get_text :: "string \<Rightarrow> node \<Rightarrow> string" where
  \<comment> \<open>\<open>node.get_text(sep, strip=True)\<close>: the text strings below the node, each stripped,
      the empty ones dropped, joined by the separator\<close>
  "get_text sep n =
     join sep (filter (\<lambda>s. s \<noteq> []) (map strip (concat (map text_of (descendants n)))))"


section \<open>The two patterns\<close>

text \<open>
  \<open>re.search\<close> returns the leftmost match. In both patterns every repetition is followed
  by a character outside its own class, so a match that starts at a given position takes
  each run of whitespace or digits whole, and the matcher below needs no backtracking.
\<close>

definition match_p_query :: "string \<Rightarrow> string option" where
  \<comment> \<open>\<open>[?&]p=(\d+)\<close> matched at the start of the string; the result is group 1\<close>
  "match_p_query s =
     (let digits = takeWhile is_decimal (drop 3 s) in
      if (take 3 s = ''?p='' \<or> take 3 s = ''&p='') \<and> digits \<noteq> [] then Some digits else None)"

fun search_p_query :: "string \<Rightarrow> string option" where
  \<comment> \<open>\<open>re.search(r"[?&]p=(\d+)", s)\<close>\<close>
  "search_p_query [] = None"
| "search_p_query (c # cs) =
     (case match_p_query (c # cs) of Some g \<Rightarrow> Some g | None \<Rightarrow> search_p_query cs)"

definition ascii_lower :: "char \<Rightarrow> char" where
  "ascii_lower c =
     (case map_of (zip ''ABCDEFGHIJKLMNOPQRSTUVWXYZ'' ''abcdefghijklmnopqrstuvwxyz'') c of
        None \<Rightarrow> c | Some l \<Rightarrow> l)"

definition match_page_of :: "string \<Rightarrow> string option" where
  \<comment> \<open>\<open>Page\s+\d+\s+of\s+(\d+)\<close>, ignoring case, matched at the start of the string; the
      result is group 1, the second integer\<close>
  "match_page_of s =
     (let r1 = drop 4 s;
          r2 = dropWhile is_space r1;
          r3 = dropWhile is_decimal r2;
          r4 = dropWhile is_space r3;
          r5 = drop 2 r4;
          r6 = dropWhile is_space r5;
          digits = takeWhile is_decimal r6
      in if map ascii_lower (take 4 s) = ''page'' \<and> takeWhile is_space r1 \<noteq> []
            \<and> takeWhile is_decimal r2 \<noteq> [] \<and> takeWhile is_space r3 \<noteq> []
            \<and> map ascii_lower (take 2 r4) = ''of'' \<and> takeWhile is_space r5 \<noteq> []
            \<and> digits \<noteq> []
         then Some digits else None)"

fun search_page_of :: "string \<Rightarrow> string option" where
  \<comment> \<open>\<open>re.search(r"Page\s+\d+\s+of\s+(\d+)", s, flags=re.IGNORECASE)\<close>\<close>
  "search_page_of [] = None"
| "search_page_of (c # cs) =
     (case match_page_of (c # cs) of Some g \<Rightarrow> Some g | None \<Rightarrow> search_page_of cs)"


section \<open>Extracting the page count\<close>

fun for_each :: "('s \<Rightarrow> 'a \<Rightarrow> error + 's) \<Rightarrow> 'a list \<Rightarrow> 's \<Rightarrow> error + 's" where
  \<comment> \<open>a \<open>for\<close> loop that updates \<open>max_page\<close>; an exception in its body ends it\<close>
  "for_each body [] s = Inr s"
| "for_each body (x # xs) s =
     (case body s x of Inl e \<Rightarrow> Inl e | Inr s' \<Rightarrow> for_each body xs s')"

definition data_page_step :: "int \<Rightarrow> node \<Rightarrow> error + int" where
  \<comment> \<open>the body of the loop over \<open>container.select("[data-page]")\<close>\<close>
  "data_page_step max_page element =
     (case get element ''data-page'' of
        None \<Rightarrow> Inr max_page
      | Some page_value \<Rightarrow>
          if page_value \<noteq> [] \<and> isdigit page_value
          then (case py_int page_value of Inl e \<Rightarrow> Inl e | Inr v \<Rightarrow> Inr (max max_page v))
          else Inr max_page)"

definition link_step :: "int \<Rightarrow> node \<Rightarrow> error + int" where
  \<comment> \<open>the body of the loop over \<open>container.select('a[href*="&p="]')\<close>\<close>
  "link_step max_page link =
     (let href = (case get link ''href'' of None \<Rightarrow> [] | Some h \<Rightarrow> h) in
      case search_p_query href of
        None \<Rightarrow> Inr max_page
      | Some g \<Rightarrow> (case py_int g of Inl e \<Rightarrow> Inl e | Inr v \<Rightarrow> Inr (max max_page v)))"

definition text_step :: "int \<Rightarrow> node \<Rightarrow> error + int" where
  \<comment> \<open>the search of the container's text for \<open>Page X of Y\<close>\<close>
  "text_step max_page container =
     (case search_page_of (get_text '' '' container) of
        None \<Rightarrow> Inr max_page
      | Some g \<Rightarrow> (case py_int g of Inl e \<Rightarrow> Inl e | Inr v \<Rightarrow> Inr (max max_page v)))"

definition scan_container :: "int \<Rightarrow> node \<Rightarrow> error + int" where
  \<comment> \<open>the body of the loop over the containers\<close>
  "scan_container max_page container =
     (case for_each data_page_step (select data_page_selector container) max_page of
        Inl e \<Rightarrow> Inl e
      | Inr m1 \<Rightarrow>
          (case for_each link_step (select page_link_selector container) m1 of
             Inl e \<Rightarrow> Inl e
           | Inr m2 \<Rightarrow> text_step m2 container))"

definition containers_of :: "node \<Rightarrow> node list" where
  \<comment> \<open>\<open>pagination_containers if pagination_containers else (soup,)\<close>\<close>
  "containers_of soup =
     (let pagination_containers = select pagination_selector soup in
      if pagination_containers \<noteq> [] then pagination_containers else [soup])"

definition extract_max_page :: "node \<Rightarrow> error + int" where
  "extract_max_page soup = for_each scan_container (containers_of soup) 1"


section \<open>Fetching the first page\<close>

text \<open>
  The answer to one GET request: either \<open>session.get\<close> raises a \<open>RequestException\<close>, or
  there is a response with its status code and the tree that the parser builds from its
  text. A session is the network as the run meets it: it gives the answer to the request
  with a given number (counted from the start of the run), URL and timeout.
\<close>

datatype http_result = RequestFailed | Response nat node

type_synonym session = "nat \<Rightarrow> string \<Rightarrow> real \<Rightarrow> http_result"

definition raise_for_status :: "nat \<Rightarrow> bool" where
  \<comment> \<open>\<open>response.raise_for_status()\<close> raises for the client and server error codes\<close>
  "raise_for_status status \<longleftrightarrow> 400 \<le> status \<and> status < 600"

definition fetch_max_page :: "session \<Rightarrow> nat \<Rightarrow> string \<Rightarrow> real \<Rightarrow> error + int" where
  \<comment> \<open>the second argument is the number of the request\<close>
  "fetch_max_page session k app_id timeout =
     (let url = build_base_url app_id in
      case session k url timeout of
        RequestFailed \<Rightarrow> Inl UrlGenerationError
      | Response status soup \<Rightarrow>
          if raise_for_status status then Inl UrlGenerationError
          else (case extract_max_page soup of
                  Inl e \<Rightarrow> Inl e
                | Inr max_page \<Rightarrow> Inr (max max_page 1)))"


section \<open>Enumerating the URLs\<close>

text \<open>
  The generator is modelled by what a consumer that drains it observes: the events in
  order, and the exception that ended it, if any.
\<close>

datatype event = LogError | Yield string string | Sleep real

type_synonym run = "event list \<times> error option"

fun and_then :: "run \<Rightarrow> run \<Rightarrow> run" where
  \<comment> \<open>sequencing: nothing runs after an exception\<close>
  "and_then (evs, Some e) r = (evs, Some e)"
| "and_then (evs, None) (evs', r) = (evs @ evs', r)"

definition page_rows :: "string \<Rightarrow> int \<Rightarrow> event list" where
  \<comment> \<open>the two \<open>yield\<close> statements: the base URL, then the pages of \<open>range(2, max_page + 1)\<close>\<close>
  "page_rows app_id max_page =
     Yield app_id (build_base_url app_id) #
     map (\<lambda>page. Yield app_id (build_page_url app_id page)) [2..max_page]"

definition pause :: "real \<Rightarrow> run" where
  \<comment> \<open>\<open>if delay: time.sleep(delay)\<close>; \<open>time.sleep\<close> raises \<open>ValueError\<close> for a negative length\<close>
  "pause delay =
     (if delay = 0 then ([], None)
      else if delay < 0 then ([], Some ValueError)
      else ([Sleep delay], None))"

fun generate_urls :: "string list \<Rightarrow> session \<Rightarrow> real \<Rightarrow> real \<Rightarrow> nat \<Rightarrow> run" where
  \<comment> \<open>the last argument is the number of requests made so far\<close>
  "generate_urls [] session timeout delay k = ([], None)"
| "generate_urls (app_id # app_ids) session timeout delay k =
     (case fetch_max_page session k app_id timeout of
        Inl UrlGenerationError \<Rightarrow>
          and_then (LogError # page_rows app_id 1, None)
            (and_then (pause delay) (generate_urls app_ids session timeout delay (Suc k)))
      | Inl ValueError \<Rightarrow> ([], Some ValueError)
      | Inr max_page \<Rightarrow>
          and_then (page_rows app_id max_page, None)
            (and_then (pause delay) (generate_urls app_ids session timeout delay (Suc k))))"

fun rows_of :: "event list \<Rightarrow> (string \<times> string) list" where
  \<comment> \<open>the pairs that the generator yields\<close>
  "rows_of [] = []"
| "rows_of (Yield app_id url # evs) = (app_id, url) # rows_of evs"
| "rows_of (ev # evs) = rows_of evs"



section \<open>Writing the file, and the entry point\<close>

definition write_csv :: "run \<Rightarrow> string list list \<times> error option" where
  \<comment> \<open>the file is opened and the header written before the first row is asked for; an
      exception of the generator leaves the rows written so far\<close>
  "write_csv r =
     ([''app_id'', ''url''] # map (\<lambda>(app_id, url). [app_id, url]) (rows_of (fst r)), snd r)"

definition main :: "string option \<Rightarrow> session \<Rightarrow> real \<Rightarrow> real \<Rightarrow>
    (error + int) \<times> string list list option" where
  \<comment> \<open>The first argument is the text of the file at \<open>args.ids\<close>, \<open>None\<close> when there is no
      such file. The result is the exit code that \<open>main\<close> returns, or the exception that
      leaves it, and the rows of the output file, \<open>None\<close> when the run has not opened it.\<close>
  "main ids_file session timeout delay =
     (case ids_file of
        None \<Rightarrow> (Inr 1, None)
      | Some text \<Rightarrow>
          (let app_ids = read_app_ids text in
           if app_ids = [] then (Inr 1, None)
           else (case write_csv (generate_urls app_ids session timeout delay 0) of
                   (file, None) \<Rightarrow> (Inr 0, Some file)
                 | (file, Some e) \<Rightarrow> (Inl e, Some file))))"


section \<open>What the specification describes\<close>



definition href_of :: "node \<Rightarrow> string" where
  "href_of link = (case get link ''href'' of None \<Rightarrow> [] | Some h \<Rightarrow> h)"

definition data_page_signals :: "node \<Rightarrow> int list" where
  \<comment> \<open>the attribute signal: the \<open>data-page\<close> values below the container that are strings
      of decimal digits, read as integers\<close>
  "data_page_signals c =
     map decimal_value (filter (\<lambda>v. v \<noteq> [] \<and> list_all is_decimal v)
       (List.map_filter (\<lambda>e. get e ''data-page'') (select data_page_selector c)))"

definition link_signals :: "node \<Rightarrow> int list" where
  \<comment> \<open>the link signal: for the anchors below the container whose \<open>href\<close> contains \<open>&p=\<close>,
      the integer after the first \<open>p=\<close> key that follows a \<open>?\<close> or \<open>&\<close>\<close>
  "link_signals c =
     map decimal_value
       (List.map_filter (\<lambda>e. search_p_query (href_of e)) (select page_link_selector c))"

definition text_signals :: "node \<Rightarrow> int list" where
  \<comment> \<open>the text signal: the second integer of \<open>Page X of Y\<close> in the container's text\<close>
  "text_signals c =
     (case search_page_of (get_text '' '' c) of None \<Rightarrow> [] | Some g \<Rightarrow> [decimal_value g])"

definition signals :: "node \<Rightarrow> int list" where
  "signals c = data_page_signals c @ link_signals c @ text_signals c"

definition readable_value :: "node \<Rightarrow> bool" where
  \<comment> \<open>the element's \<open>data-page\<close> value, if it passes \<open>isdigit()\<close>, can be read by \<open>int()\<close>\<close>
  "readable_value e \<longleftrightarrow>
     (case get e ''data-page'' of None \<Rightarrow> True
      | Some v \<Rightarrow> \<not> isdigit v \<or> (list_all is_decimal v \<and> length v \<le> int_max_str_digits))"

definition readable_link :: "node \<Rightarrow> bool" where
  \<comment> \<open>the integer matched in the link's \<open>href\<close>, if there is one, can be read by \<open>int()\<close>\<close>
  "readable_link e \<longleftrightarrow>
     (case search_p_query (href_of e) of None \<Rightarrow> True
      | Some g \<Rightarrow> length g \<le> int_max_str_digits)"

definition readable_text :: "node \<Rightarrow> bool" where
  \<comment> \<open>the integer matched in the container's text, if there is one, can be read by
      \<open>int()\<close>\<close>
  "readable_text c \<longleftrightarrow>
     (case search_page_of (get_text '' '' c) of None \<Rightarrow> True
      | Some g \<Rightarrow> length g \<le> int_max_str_digits)"

definition readable :: "node \<Rightarrow> bool" where
  "readable c \<longleftrightarrow>
     list_all readable_value (select data_page_selector c)
     \<and> list_all readable_link (select page_link_selector c)
     \<and> readable_text c"


section \<open>Example inputs\<close>

definition document :: "node list \<Rightarrow> node" where
  \<comment> \<open>the parsed document with the given top-level nodes\<close>
  "document kids = Element ''[document]'' [] [] kids"

definition page_superscript :: node where
  \<comment> \<open>\<open><span data-page="x"></span>\<close>, where \<open>x\<close> stands for the one character U+00B2\<close>
  "page_superscript = document [Element ''span'' [] [(''data-page'', [CHR 0xB2])] []]"

definition page_mixed :: node where
  \<comment> \<open>\<open><div><span data-page="3"></span> Page 1 of 7 </div>\<close>\<close>
  "page_mixed =
     document [Element ''div'' [] [] [Element ''span'' [] [(''data-page'', ''3'')] [],
       Text '' Page 1 of 7 '']]"

definition page_paging_superscript :: node where
  \<comment> \<open>\<open><div class="forum_paging"><a data-page="1x">1</a></div>\<close>, with U+00B2 for \<open>x\<close>\<close>
  "page_paging_superscript =
     document [Element ''div'' [''forum_paging''] []
       [Element ''a'' [] [(''data-page'', [CHR ''1'', CHR 0xB2])] [Text ''1'']]]"

definition page_three :: node where
  \<comment> \<open>\<open><span data-page="3"></span>\<close>\<close>
  "page_three = document [Element ''span'' [] [(''data-page'', ''3'')] []]"

definition page_paging :: node where
  \<comment> \<open>a pagination container that holds \<open>data-page="3"\<close>, and nothing else\<close>
  "page_paging = document [Element ''div'' [''forum_paging''] []
     [Element ''span'' [] [(''data-page'', ''3'')] []]]"

definition page_noise :: node where
  \<comment> \<open>the three kinds of signal, and no pagination container\<close>
  "page_noise = document
     [Element ''div'' [] [(''data-page'', ''99'')]
        [Text ''Page 1 of 80'',
         Element ''a'' [] [(''href'', ''/search/?q=+&p=50'')] [Text ''50'']]]"

definition page_paging_noise :: node where
  \<comment> \<open>larger signals of all three kinds before and after a pagination container, and on the
      container element itself\<close>
  "page_paging_noise = document
     [Element ''div'' [] [(''data-page'', ''99'')]
        [Text ''Page 1 of 80'',
         Element ''a'' [] [(''href'', ''/search/?q=+&p=50'')] [Text ''50'']],
      Element ''nav'' [''x'', ''forum_paging''] [(''data-page'', ''70'')]
        [Element ''span'' [] [(''data-page'', ''3'')] []],
      Element ''span'' [] [(''data-page'', ''60'')] []]"

definition paging_two_counts :: node where
  \<comment> \<open>a container whose text is \<open>Go Page 1 of 3 then page 2 of 9\<close>\<close>
  "paging_two_counts = Element ''div'' [''forum_paging''] []
     [Text ''Go'', Element ''b'' [] [] [Text '' Page 1 of 3 ''], Text ''then page 2 of 9'']"

definition page_two_counts :: node where
  "page_two_counts = document [paging_two_counts]"

definition session_superscript :: session where
  \<comment> \<open>every request is answered with status 200 and the page \<open>page_superscript\<close>\<close>
  "session_superscript k url timeout = Response 200 page_superscript"


definition session_failing :: session where
  \<comment> \<open>status 404 for the identifier 7, a transport error for 8, three pages otherwise\<close>
  "session_failing k url timeout =
     (if url = build_base_url ''7'' then Response 404 page_three
      else if url = build_base_url ''8'' then RequestFailed
      else Response 200 page_three)"



section \<open>The identifier reader\<close>

lemma isdigit_not_comment: "isdigit s \<Longrightarrow> s \<noteq> [] \<and> \<not> startswith s ''#''"
  by (cases s) (auto simp: isdigit_def startswith_def is_digit_def is_decimal_def)

lemma read_lines_filter: "read_lines ls = filter isdigit (map strip ls)"
  by (induction ls) (auto simp: Let_def dest: isdigit_not_comment)

text \<open>
  The reader keeps, in order and with duplicates, the stripped lines that pass \<open>isdigit()\<close>;
  nothing in it can raise.
\<close>

lemma read_app_ids_filter: "read_app_ids text = filter isdigit (map strip (splitlines text))"
  by (simp add: read_app_ids_def read_lines_filter)

lemma read_app_ids_example:
  "read_app_ids (''123'' @ [CHR 0x0A, CHR 0x0A] @ ''# comment'' @ [CHR 0x0A] @ ''abc''
     @ [CHR 0x0A] @ ''456'' @ [CHR 0x0A] @ ''123'' @ [CHR 0x0A]) = [''123'', ''456'', ''123'']"
  by code_simp

text \<open>
  C7. The reader is meant to keep only the lines that are strings of decimal digits. The
  test it applies is \<open>isdigit()\<close>, which also holds for the superscript digits: a file whose
  only line is the character U+00B2, which is not a decimal digit, yields that character as
  an identifier.
\<close>

theorem read_app_ids_keeps_superscript:
  "read_app_ids [CHR 0xB2, CHR 0x0A] = [[CHR 0xB2]] \<and> \<not> list_all is_decimal [CHR 0xB2]"
  by code_simp


section \<open>The URL builders\<close>

text \<open>
  C3, as the claim states it, fails: for the identifier 42 the URL that \<open>build_page_url\<close>
  builds for page 1 differs from the base URL.
\<close>

theorem build_page_url_one_differs: "build_page_url ''42'' 1 \<noteq> build_base_url ''42''"
  by (simp add: build_page_url_def)

text \<open>
  C3, amended. For every identifier, \<open>build_page_url\<close> called for page 1 gives the base URL
  followed by the page-selector fragment \<open>&p=1\<close>: the fragment is never left out, so the
  result is never the base URL, for page 1 or any other page.
\<close>

theorem build_page_url_one:
  "build_page_url app_id 1 = build_base_url app_id @ ''&p=1''
   \<and> (\<forall>page. build_page_url app_id page \<noteq> build_base_url app_id)"
  by (simp add: build_page_url_def str_int_def)


section \<open>The page-count extractor\<close>

subsection \<open>The three scans\<close>

lemma decimal_isdigit: "v \<noteq> [] \<Longrightarrow> list_all is_decimal v \<Longrightarrow> isdigit v"
  by (simp add: isdigit_def is_digit_def list_all_iff)

lemma py_int_decimal:
  "s \<noteq> [] \<and> list_all is_decimal s \<Longrightarrow>
   py_int s = (if length s \<le> int_max_str_digits then Inr (decimal_value s) else Inl ValueError)"
  by (simp add: py_int_def)

lemma py_int_too_long: "int_max_str_digits < length s \<Longrightarrow> py_int s = Inl ValueError"
  by (simp add: py_int_def)

text \<open>
  What one \<open>data-page\<close> value does: a value that fails \<open>isdigit()\<close> (a sign, whitespace, any
  character that is not a digit, the empty string) is passed over; a string of decimal
  digits within the limit of \<open>int()\<close> is read and joins the maximum; a value that passes
  \<open>isdigit()\<close> and holds a superscript digit, or is longer than the limit, raises.
\<close>

lemma data_page_step_cases:
  "data_page_step m e =
     (case get e ''data-page'' of
        None \<Rightarrow> Inr m
      | Some v \<Rightarrow> if \<not> isdigit v then Inr m
                  else if list_all is_decimal v \<and> length v \<le> int_max_str_digits
                       then Inr (max m (decimal_value v))
                  else Inl ValueError)"
  by (auto simp: data_page_step_def py_int_def isdigit_def split: option.splits)

lemma data_page_zero:
  "data_page_step m (Element name cls [(''data-page'', ''0'')] kids) = Inr (max m 0)"
  by (simp add: data_page_step_cases isdigit_def is_digit_def is_decimal_def decimal_value_def
      digit_value_def int_max_str_digits_def)

lemma data_page_loop:
  "for_each data_page_step es m =
     (if list_all readable_value es
      then Inr (fold max (map decimal_value (filter (\<lambda>v. v \<noteq> [] \<and> list_all is_decimal v)
             (List.map_filter (\<lambda>e. get e ''data-page'') es))) m)
      else Inl ValueError)"
proof (induction es arbitrary: m)
  case Nil
  show ?case by simp
next
  case (Cons e es)
  note step = data_page_step_cases[of m e] and rv = readable_value_def[of e]
  show ?case
  proof (cases "get e ''data-page''")
    case None
    with step rv have "data_page_step m e = Inr m" and "readable_value e" by simp_all
    with None show ?thesis
      by (simp add: Cons.IH)
  next
    case (Some v)
    consider "\<not> isdigit v"
      | "isdigit v" "list_all is_decimal v \<and> length v \<le> int_max_str_digits"
      | "isdigit v" "\<not> (list_all is_decimal v \<and> length v \<le> int_max_str_digits)"
      by blast
    then show ?thesis
    proof cases
      case 1
      then have no: "\<not> (v \<noteq> [] \<and> list_all is_decimal v)" using decimal_isdigit by blast
      from 1 Some step rv have "data_page_step m e = Inr m" and "readable_value e" by simp_all
      with Some no show ?thesis
        by (auto simp add: Cons.IH)
    next
      case 2
      then have ne: "v \<noteq> []" and dec: "list_all is_decimal v" by (simp_all add: isdigit_def)
      from 2 Some step rv have "data_page_step m e = Inr (max m (decimal_value v))"
        and "readable_value e" by simp_all
      with Some ne dec show ?thesis
        by (simp add: Cons.IH max.commute)
    next
      case 3
      with Some step rv have "data_page_step m e = Inl ValueError" and "\<not> readable_value e"
        by simp_all
      then show ?thesis by simp
    qed
  qed
qed

lemma match_p_query_decimal:
  "match_p_query s = Some g \<Longrightarrow> g \<noteq> [] \<and> list_all is_decimal g"
  by (auto simp: match_p_query_def Let_def list_all_iff split: if_splits dest: set_takeWhileD)

lemma search_p_query_decimal:
  "search_p_query s = Some g \<Longrightarrow> g \<noteq> [] \<and> list_all is_decimal g"
  by (induction s) (auto split: option.splits dest: match_p_query_decimal)

lemma match_page_of_decimal:
  "match_page_of s = Some g \<Longrightarrow> g \<noteq> [] \<and> list_all is_decimal g"
  by (auto simp: match_page_of_def Let_def list_all_iff split: if_splits dest: set_takeWhileD)

lemma search_page_of_decimal:
  "search_page_of s = Some g \<Longrightarrow> g \<noteq> [] \<and> list_all is_decimal g"
  by (induction s) (auto split: option.splits dest: match_page_of_decimal)

text \<open>
  An integer that a pattern has matched is a string of decimal digits: reading it raises
  only when it is longer than the limit of \<open>int()\<close>.
\<close>

lemma link_step_cases:
  "link_step m e =
     (case search_p_query (href_of e) of
        None \<Rightarrow> Inr m
      | Some g \<Rightarrow> if length g \<le> int_max_str_digits then Inr (max m (decimal_value g))
                  else Inl ValueError)"
proof (cases "search_p_query (href_of e)")
  case None
  then show ?thesis by (simp add: link_step_def href_of_def Let_def)
next
  case (Some g)
  note py_int_decimal[OF search_p_query_decimal[OF Some]]
  with Some show ?thesis by (simp add: link_step_def href_of_def Let_def)
qed

lemma link_loop:
  "for_each link_step es m =
     (if list_all readable_link es
      then Inr (fold max
             (map decimal_value (List.map_filter (\<lambda>e. search_p_query (href_of e)) es)) m)
      else Inl ValueError)"
proof (induction es arbitrary: m)
  case Nil
  show ?case by simp
next
  case (Cons e es)
  note step = link_step_cases[of m e] and rl = readable_link_def[of e]
  show ?case
  proof (cases "search_p_query (href_of e)")
    case None
    with step rl have "link_step m e = Inr m" and "readable_link e" by simp_all
    with None show ?thesis by (simp add: Cons.IH)
  next
    case (Some g)
    show ?thesis
    proof (cases "length g \<le> int_max_str_digits")
      case True
      with Some step rl have "link_step m e = Inr (max m (decimal_value g))"
        and "readable_link e" by simp_all
      with Some show ?thesis by (simp add: Cons.IH max.commute)
    next
      case False
      with Some step rl have "link_step m e = Inl ValueError" and "\<not> readable_link e"
        by simp_all
      then show ?thesis by simp
    qed
  qed
qed

lemma text_step_cases:
  "text_step m c =
     (case search_page_of (get_text '' '' c) of
        None \<Rightarrow> Inr m
      | Some g \<Rightarrow> if length g \<le> int_max_str_digits then Inr (max m (decimal_value g))
                  else Inl ValueError)"
proof (cases "search_page_of (get_text '' '' c)")
  case None
  then show ?thesis by (simp add: text_step_def)
next
  case (Some g)
  note py_int_decimal[OF search_page_of_decimal[OF Some]]
  with Some show ?thesis by (simp add: text_step_def)
qed

lemma text_step_signals:
  "text_step m c =
     (if readable_text c then Inr (fold max (text_signals c) m) else Inl ValueError)"
  by (simp add: text_step_cases readable_text_def text_signals_def max.commute
      split: option.splits)

lemma scan_container_signals:
  "scan_container m c = (if readable c then Inr (fold max (signals c) m) else Inl ValueError)"
  by (simp add: scan_container_def data_page_loop link_loop text_step_signals readable_def
      signals_def data_page_signals_def link_signals_def)

lemma containers_loop:
  "for_each scan_container cs m =
     (if list_all readable cs then Inr (fold max (concat (map signals cs)) m)
      else Inl ValueError)"
  by (induction cs arbitrary: m) (simp_all add: scan_container_signals)

subsection \<open>The result\<close>

text \<open>
  When \<open>int()\<close> can read every \<open>data-page\<close> value that passes \<open>isdigit()\<close> and every
  integer that a pattern matches, the extractor returns the maximum of 1 and the signals
  of the scanned containers; otherwise it raises.
\<close>

lemma extract_max_page_signals:
  "extract_max_page soup =
     (if list_all readable (containers_of soup)
      then Inr (Max (set (1 # concat (map signals (containers_of soup)))))
      else Inl ValueError)"
  by (simp only: extract_max_page_def containers_loop Max.set_eq_fold)

lemma extract_max_page_floor: "extract_max_page soup = Inr n \<Longrightarrow> 1 \<le> n"
  by (auto simp: extract_max_page_signals split: if_splits)

lemma extract_max_page_no_signal:
  assumes "list_all (\<lambda>c. signals c = []) (containers_of soup)"
    and "list_all readable (containers_of soup)"
  shows "extract_max_page soup = Inr 1"
proof -
  from assms(1) have "concat (map signals (containers_of soup)) = []"
    by (simp add: list_all_iff)
  with assms(2) show ?thesis by (simp add: extract_max_page_signals)
qed

lemma extract_max_page_mixed: "extract_max_page page_mixed = Inr 7"
  by code_simp

lemma extract_max_page_empty: "extract_max_page (document []) = Inr 1"
  by code_simp

text \<open>
  C1. The extractor is meant to return, for every parsed page, the maximum of the signals
  with a floor of 1. On a page whose only signal is a \<open>data-page\<close> attribute holding the
  superscript digit U+00B2, the value passes \<open>isdigit()\<close>, \<open>int()\<close> cannot read it, and the
  extractor raises \<open>ValueError\<close> instead of returning 1.
\<close>

theorem extract_max_page_superscript: "extract_max_page page_superscript = Inl ValueError"
  by code_simp

text \<open>
  C10. A \<open>data-page\<close> value that is not a string of decimal digits is meant to be passed
  over without being read. The value \<open>1\<close> followed by U+00B2, inside a pagination
  container, is not passed over: the step for its element raises \<open>ValueError\<close>, and so
  does the extractor.
\<close>

theorem data_page_superscript_not_ignored:
  "data_page_step 1 (Element ''a'' [] [(''data-page'', [CHR ''1'', CHR 0xB2])] [Text ''1''])
     = Inl ValueError
   \<and> extract_max_page page_paging_superscript = Inl ValueError"
  by code_simp

subsection \<open>The search scope\<close>

lemma for_each_contents:
  assumes "map descendants cs = map descendants cs'"
    and body: "\<And>m c c'. descendants c = descendants c' \<Longrightarrow> body m c = body m c'"
  shows "for_each body cs m = for_each body cs' m"
  using assms(1)
proof (induction cs arbitrary: cs' m)
  case Nil
  then show ?case by simp
next
  case (Cons c cs)
  from Cons.prems obtain d ds where cs': "cs' = d # ds" by (cases cs') auto
  from Cons.prems have hd: "descendants c = descendants d"
    and tl: "map descendants cs = map descendants ds"
    unfolding cs' by simp_all
  have b: "body m c = body m d" using hd by (rule body)
  have r: "for_each body cs m' = for_each body ds m'" for m'
    using tl by (rule Cons.IH)
  show ?case unfolding cs' for_each.simps b r ..
qed

lemma scan_container_contents:
  assumes "descendants c = descendants c'"
  shows "scan_container m c = scan_container m c'"
proof -
  have s: "select p c = select p c'" for p
    by (simp add: select_def assms)
  have t: "text_step m' c = text_step m' c'" for m'
    by (simp add: text_step_def get_text_def assms)
  show ?thesis
    unfolding scan_container_def s t ..
qed

text \<open>
  C6. If the page has at least one element with one of the four pagination classes, the
  result is that of the scans of those containers, and it depends on nothing but what lies
  below them: any page whose containers have the same contents gives the same result,
  whatever attributes, links or text it has elsewhere. If the page has no such element,
  the result is that of the scan of the whole page.
\<close>

theorem extract_max_page_scope:
  "(select pagination_selector soup \<noteq> [] \<longrightarrow>
      extract_max_page soup = for_each scan_container (select pagination_selector soup) 1
      \<and> (\<forall>other. map descendants (select pagination_selector other)
              = map descendants (select pagination_selector soup)
            \<longrightarrow> extract_max_page other = extract_max_page soup))
   \<and> (select pagination_selector soup = [] \<longrightarrow> extract_max_page soup = scan_container 1 soup)"
proof (intro conjI impI allI)
  assume "select pagination_selector soup \<noteq> []"
  then show "extract_max_page soup = for_each scan_container (select pagination_selector soup) 1"
    by (simp add: extract_max_page_def containers_of_def)
next
  fix other
  assume ne: "select pagination_selector soup \<noteq> []"
    and same: "map descendants (select pagination_selector other)
      = map descendants (select pagination_selector soup)"
  from same ne have ne': "select pagination_selector other \<noteq> []" by auto
  have "for_each scan_container (select pagination_selector other) 1
      = for_each scan_container (select pagination_selector soup) 1"
    using same scan_container_contents by (rule for_each_contents)
  with ne ne' show "extract_max_page other = extract_max_page soup"
    by (simp add: extract_max_page_def containers_of_def)
next
  assume "select pagination_selector soup = []"
  then show "extract_max_page soup = scan_container 1 soup"
    by (simp add: extract_max_page_def containers_of_def split: sum.splits)
qed

text \<open>
  A page with larger signals of all three kinds around its pagination container gives the
  3 of the container; the same signals on a page without a container give 99.
\<close>

theorem extract_max_page_scope_witness:
  "select pagination_selector page_paging \<noteq> []
   \<and> extract_max_page page_paging_noise = extract_max_page page_paging
   \<and> extract_max_page page_paging_noise = Inr 3
   \<and> select pagination_selector page_noise = []
   \<and> extract_max_page page_noise = scan_container 1 page_noise
   \<and> extract_max_page page_noise = Inr 99"
proof -
  have a: "select pagination_selector page_paging \<noteq> []" by code_simp
  have b: "map descendants (select pagination_selector page_paging_noise)
      = map descendants (select pagination_selector page_paging)" by code_simp
  have c: "select pagination_selector page_noise = []" by code_simp
  have d: "extract_max_page page_paging = Inr 3" by code_simp
  have e: "scan_container 1 page_noise = Inr 99" by code_simp
  show ?thesis
    using extract_max_page_scope[of page_paging] extract_max_page_scope[of page_noise] a b c d e
    by auto
qed

subsection \<open>The text signal\<close>

lemma match_page_of_Nil: "match_page_of [] = None"
  by (simp add: match_page_of_def)

lemma search_page_of_first:
  assumes "list_all (\<lambda>i. match_page_of (drop i (before @ rest)) = None) [0..<length before]"
    and "match_page_of rest = Some digits"
  shows "search_page_of (before @ rest) = Some digits"
  using assms(1)
proof (induction before)
  case Nil
  from assms(2) show ?case by (cases rest) (simp_all add: match_page_of_Nil)
next
  case (Cons b bs)
  from Cons.prems
  have all: "\<forall>i<Suc (length bs). match_page_of (drop i ((b # bs) @ rest)) = None"
    by (simp add: list_all_iff del: upt_Suc)
  then have "match_page_of ((b # bs) @ rest) = None" by (metis drop0 zero_less_Suc)
  moreover have "list_all (\<lambda>i. match_page_of (drop i (bs @ rest)) = None) [0..<length bs]"
    unfolding list_all_iff
  proof
    fix i assume "i \<in> set [0..<length bs]"
    then have "Suc i < Suc (length bs)" by simp
    with all have "match_page_of (drop (Suc i) ((b # bs) @ rest)) = None" by blast
    then show "match_page_of (drop i (bs @ rest)) = None" by simp
  qed
  ultimately show ?case using Cons.IH by simp
qed

text \<open>
  C9. When the text of a container is \<open>before @ rest\<close>, no occurrence of the pattern starts
  inside \<open>before\<close>, and one starts at \<open>rest\<close> with the second integer \<open>digits\<close>, the text
  step of the container is decided by that integer alone: it joins the maximum, or, when
  it has more digits than \<open>int()\<close> converts, the step raises. Whatever follows the first
  occurrence, a later occurrence with a larger integer included, has no part in it.
\<close>

theorem text_step_first_occurrence:
  assumes "get_text '' '' container = before @ rest"
    and "list_all (\<lambda>i. match_page_of (drop i (before @ rest)) = None) [0..<length before]"
    and "match_page_of rest = Some digits"
  shows "text_step max_page container =
     (if length digits \<le> int_max_str_digits then Inr (max max_page (decimal_value digits))
      else Inl ValueError)"
proof -
  have "search_page_of (get_text '' '' container) = Some digits"
    unfolding assms(1) using assms(2,3) by (rule search_page_of_first)
  moreover have "py_int digits =
      (if length digits \<le> int_max_str_digits then Inr (decimal_value digits)
       else Inl ValueError)"
    using match_page_of_decimal[OF assms(3)] by (rule py_int_decimal)
  ultimately show ?thesis by (simp add: text_step_def)
qed

text \<open>
  The container with the text \<open>Go Page 1 of 3 then page 2 of 9\<close>: the later occurrence
  has the larger integer 9, and the signal is 3.
\<close>

theorem text_step_first_occurrence_witness:
  "get_text '' '' paging_two_counts = ''Go '' @ ''Page 1 of 3 then page 2 of 9''
   \<and> match_page_of ''page 2 of 9'' = Some ''9''
   \<and> text_step 1 paging_two_counts = Inr 3
   \<and> extract_max_page page_two_counts = Inr 3"
proof -
  have a: "get_text '' '' paging_two_counts = ''Go '' @ ''Page 1 of 3 then page 2 of 9''"
    by code_simp
  have b: "list_all (\<lambda>i. match_page_of (drop i (''Go '' @ ''Page 1 of 3 then page 2 of 9'')) = None)
      [0..<length ''Go '']" by code_simp
  have c: "match_page_of ''Page 1 of 3 then page 2 of 9'' = Some ''3''" by code_simp
  have d: "max 1 (decimal_value ''3'') = 3 \<and> length ''3'' \<le> int_max_str_digits" by code_simp
  have e: "match_page_of ''page 2 of 9'' = Some ''9''" by code_simp
  have f: "extract_max_page page_two_counts = Inr 3" by code_simp
  show ?thesis
    using text_step_first_occurrence[OF a b c, of 1] a d e f by simp
qed


section \<open>The enumerator\<close>

subsection \<open>Events and fetches\<close>












lemma pause_nonneg:
  "0 \<le> delay \<Longrightarrow> pause delay = (if delay = 0 then [] else [Sleep delay], None)"
  by (simp add: pause_def)

lemma and_then_None: "and_then (evs, None) r = (evs @ fst r, snd r)"
  by (cases r) simp


subsection \<open>One identifier, then the rest\<close>

lemma generate_urls_fetched:
  assumes "0 \<le> delay" and "fetch_max_page session k app_id timeout = Inr n"
  shows "generate_urls (app_id # app_ids) session timeout delay k =
     and_then (page_rows app_id n @ (if delay = 0 then [] else [Sleep delay]), None)
       (generate_urls app_ids session timeout delay (Suc k))"
  using assms by (simp add: pause_nonneg and_then_None)

lemma generate_urls_failed:
  assumes "0 \<le> delay" and "fetch_max_page session k app_id timeout = Inl UrlGenerationError"
  shows "generate_urls (app_id # app_ids) session timeout delay k =
     and_then (LogError # page_rows app_id 1 @ (if delay = 0 then [] else [Sleep delay]), None)
       (generate_urls app_ids session timeout delay (Suc k))"
  using assms by (simp add: pause_nonneg and_then_None)



lemma generate_urls_completes:
  assumes "0 \<le> delay"
    and "list_all (\<lambda>(i, app_id). fetch_max_page session i app_id timeout \<noteq> Inl ValueError)
           (enumerate k app_ids)"
  shows "snd (generate_urls app_ids session timeout delay k) = None"
  using assms(2)
proof (induction app_ids arbitrary: k)
  case Nil
  show ?case by simp
next
  case (Cons a as)
  from Cons.prems have hd: "fetch_max_page session k a timeout \<noteq> Inl ValueError"
    and tl: "list_all (\<lambda>(i, app_id). fetch_max_page session i app_id timeout \<noteq> Inl ValueError)
               (enumerate (Suc k) as)"
    by simp_all
  note ih = Cons.IH[OF tl]
  show ?case
  proof (cases "fetch_max_page session k a timeout")
    case (Inl e)
    with hd have "fetch_max_page session k a timeout = Inl UrlGenerationError"
      by (cases e) simp_all
    then show ?thesis
      by (simp add: generate_urls_failed[OF assms(1)] and_then_None ih del: generate_urls.simps)
  next
    case (Inr n)
    then show ?thesis
      by (simp add: generate_urls_fetched[OF assms(1)] and_then_None ih del: generate_urls.simps)
  qed
qed




subsection \<open>A failed fetch\<close>




subsection \<open>The pauses\<close>






section \<open>The entry point\<close>

text \<open>
  \<open>main\<close> returns 1 exactly when there is no input file or no valid identifier in it, and
  the run has not opened the output file then. When the generator is drained without an
  exception, \<open>main\<close> writes the header and the records and returns 0; when the generator
  raises, the exception leaves \<open>main\<close> after the output file has been opened.
\<close>

lemma main_exit_one:
  "fst (main ids_file session timeout delay) = Inr 1 \<longleftrightarrow>
     (case ids_file of None \<Rightarrow> True | Some text \<Rightarrow> read_app_ids text = [])"
  by (auto simp: main_def Let_def write_csv_def split: option.splits prod.splits)

lemma main_no_output:
  "fst (main ids_file session timeout delay) = Inr 1 \<Longrightarrow>
   snd (main ids_file session timeout delay) = None"
  by (auto simp: main_def Let_def write_csv_def split: option.splits prod.splits if_splits)

lemma main_completes:
  assumes "ids_file = Some text" and "read_app_ids text \<noteq> []"
    and "snd (generate_urls (read_app_ids text) session timeout delay 0) = None"
  shows "main ids_file session timeout delay =
     (Inr 0, Some ([''app_id'', ''url''] # map (\<lambda>(app_id, url). [app_id, url])
        (rows_of (fst (generate_urls (read_app_ids text) session timeout delay 0)))))"
  using assms by (simp add: main_def Let_def write_csv_def)

lemma main_raises:
  assumes "ids_file = Some text" and "read_app_ids text \<noteq> []"
    and "snd (generate_urls (read_app_ids text) session timeout delay 0) = Some e"
  shows "fst (main ids_file session timeout delay) = Inl e
       \<and> snd (main ids_file session timeout delay) \<noteq> None"
  using assms by (simp add: main_def Let_def write_csv_def)

lemma main_returns_zero:
  assumes "ids_file = Some text" and "read_app_ids text \<noteq> []" and "0 \<le> delay"
    and "list_all (\<lambda>(i, app_id). fetch_max_page session i app_id timeout \<noteq> Inl ValueError)
           (enumerate 0 (read_app_ids text))"
  shows "fst (main ids_file session timeout delay) = Inr 0
       \<and> snd (main ids_file session timeout delay) \<noteq> None"
  using main_completes[OF assms(1,2) generate_urls_completes[OF assms(3,4)]] by simp

lemma main_all_failing:
  "main (Some (''7'' @ [CHR 0x0A] @ ''8'' @ [CHR 0x0A])) session_failing 30 0 =
     (Inr 0, Some [[''app_id'', ''url''], [''7'', build_base_url ''7''],
                   [''8'', build_base_url ''8'']])"
  by code_simp

text \<open>
  C8. A run with an existing file of one valid identifier is meant to write the output file
  and return 0. When the page fetched for the identifier makes the extractor raise, \<open>main\<close>
  does not return: the exception leaves it, after the output file has been opened and its
  header written.
\<close>

theorem main_superscript_page:
  "main (Some (''42'' @ [CHR 0x0A])) session_superscript 30 0
     = (Inl ValueError, Some [[''app_id'', ''url'']])"
  by code_simp

end
